theory Spec2Isabelle
  imports Complex_Main "HOL-Library.Char_ord" "HOL-Library.List_Lexorder"
begin

section \<open>Strings as the program uses them\<close>

text \<open>
  Python strings are modelled as \<open>string\<close> (lists of 8-bit characters), so the
  development covers ASCII text: \<open>str.lower\<close> maps \<open>A\<close>..\<open>Z\<close> to \<open>a\<close>..\<open>z\<close> and
  leaves every other character alone, and the order on strings is the lexicographic order
  on character codes, which is how Python compares \<open>str\<close> values.
\<close>

definition lower_char :: "char \<Rightarrow> char" where
  "lower_char c =
     (case map_of (zip ''ABCDEFGHIJKLMNOPQRSTUVWXYZ'' ''abcdefghijklmnopqrstuvwxyz'') c of
        Some d \<Rightarrow> d
      | None \<Rightarrow> c)"

definition lower :: "string \<Rightarrow> string" where
  "lower s = map lower_char s"

text \<open>The ASCII characters for which \<open>str.isspace\<close> holds; \<open>strip()\<close> and \<open>split()\<close> use them.\<close>

definition is_space :: "char \<Rightarrow> bool" where
  "is_space c = (c \<in> set [CHR '' '', CHR 0x09, CHR 0x0A, CHR 0x0B, CHR 0x0C, CHR 0x0D,
                           CHR 0x1C, CHR 0x1D, CHR 0x1E, CHR 0x1F])"

definition strip_chars :: "(char \<Rightarrow> bool) \<Rightarrow> string \<Rightarrow> string" where
  "strip_chars p s = rev (dropWhile p (rev (dropWhile p s)))"

definition strip :: "string \<Rightarrow> string" where
  "strip s = strip_chars is_space s"

text \<open>\<open>s.split(maxsplit=1)\<close>: the first whitespace-delimited token and, when there is
  one, the remainder with its leading whitespace removed.\<close>

definition split_maxsplit1 :: "string \<Rightarrow> string list" where
  "split_maxsplit1 s =
     (let s1 = dropWhile is_space s in
      if s1 = [] then []
      else (let tok = takeWhile (\<lambda>c. \<not> is_space c) s1;
                rest = dropWhile is_space (dropWhile (\<lambda>c. \<not> is_space c) s1)
            in if rest = [] then [tok] else [tok, rest]))"

definition endswith :: "string \<Rightarrow> string \<Rightarrow> bool" where
  "endswith s suf = (length suf \<le> length s \<and> drop (length s - length suf) s = suf)"

text \<open>\<open>a in b\<close> on strings: \<open>a\<close> occurs in \<open>b\<close> as a contiguous substring.\<close>

fun startswith :: "string \<Rightarrow> string \<Rightarrow> bool" where
  "startswith s [] = True"
| "startswith [] (p # ps) = False"
| "startswith (c # cs) (p # ps) = (c = p \<and> startswith cs ps)"

fun str_in :: "string \<Rightarrow> string \<Rightarrow> bool" where
  "str_in a [] = (a = [])"
| "str_in a (c # cs) = (startswith (c # cs) a \<or> str_in a cs)"

text \<open>
  \<open>Path(rom).stem\<close> with POSIX separators: the final path component without its last
  suffix. pathlib takes as suffix what follows the last dot of the name, unless that dot is
  the first or the last character of the name.
\<close>

definition path_name :: "string \<Rightarrow> string" where
  "path_name p = rev (takeWhile (\<lambda>c. c \<noteq> CHR ''/'') (rev p))"

definition path_stem :: "string \<Rightarrow> string" where
  "path_stem p =
     (let name = path_name p;
          ext = takeWhile (\<lambda>c. c \<noteq> CHR ''.'') (rev name);
          i = length name - length ext - 1
      in if CHR ''.'' \<in> set name \<and> 0 < i \<and> ext \<noteq> [] then take i name else name)"

section \<open>Dictionaries\<close>

text \<open>
  The two metadata indexes are Python dicts that the program fills, looks up, tests for
  membership and tests for emptiness. They are association lists here: an assignment puts
  the binding in front, so that a lookup finds the latest value stored under a key.
\<close>

type_synonym ('k, 'v) dict = "('k \<times> 'v) list"

definition dict_set :: "'k \<Rightarrow> 'v \<Rightarrow> ('k, 'v) dict \<Rightarrow> ('k, 'v) dict" where
  "dict_set k v m = (k, v) # m"

definition dict_in :: "'k \<Rightarrow> ('k, 'v) dict \<Rightarrow> bool" where
  "dict_in k m = (map_of m k \<noteq> None)"

definition dict_get :: "('k, 'v) dict \<Rightarrow> 'k \<Rightarrow> 'v \<Rightarrow> 'v" where
  "dict_get m k d = (case map_of m k of Some v \<Rightarrow> v | None \<Rightarrow> d)"

section \<open>The environment: file system and XML library\<close>

text \<open>An XML element as \<open>xml.etree.ElementTree\<close> presents it: tag, attributes, text
  (absent when the element has none) and child elements in document order.\<close>

datatype xml = Element (etag: string) (eattrib: "(string, string) dict")
                       (etext: "string option") (echildren: "xml list")

datatype error = OSError

text \<open>
  What the program asks of the operating system and of the XML parser. \<open>open_lines\<close> is
  \<open>None\<close> where opening or reading the file raises, \<open>et_parse\<close> is \<open>None\<close> where
  \<open>ET.parse\<close> raises, \<open>os_listdir\<close> is \<open>None\<close> where \<open>os.listdir\<close> raises;
  \<open>os_walk\<close> gives the \<open>(root, files)\<close> pairs that \<open>os.walk\<close> yields.
\<close>

record os_env =
  path_exists :: "string \<Rightarrow> bool"
  open_lines :: "string \<Rightarrow> string list option"
  et_parse :: "string \<Rightarrow> xml option"
  os_listdir :: "string \<Rightarrow> string list option"
  os_isfile :: "string \<Rightarrow> bool"
  os_walk :: "string \<Rightarrow> (string \<times> string list) list"
  os_path_join :: "string \<Rightarrow> string \<Rightarrow> string"
  os_path_relpath :: "string \<Rightarrow> string \<Rightarrow> string"

section \<open>Metadata parsers\<close>

subsection \<open>\<open>load_rom_titles\<close>\<close>

fun rom_titles_loop :: "string list \<Rightarrow> (string, string) dict \<Rightarrow> (string, string) dict" where
  "rom_titles_loop [] rom_titles = rom_titles"
| "rom_titles_loop (line # file) rom_titles =
     (case split_maxsplit1 (strip line) of
        key0 # title0 # _ \<Rightarrow>
          (let key = lower key0;
               title = strip_chars (\<lambda>c. c = CHR 0x22) title0
           in if title = [] \<or> lower title \<in> set [''untitled'', ''unknown'', ''no title'']
              then rom_titles_loop file rom_titles
              else rom_titles_loop file (dict_set key title rom_titles))
      | _ \<Rightarrow> rom_titles_loop file rom_titles)"

definition load_rom_titles :: "os_env \<Rightarrow> string \<Rightarrow> error + (string, string) dict" where
  "load_rom_titles env filename =
     (if \<not> path_exists env filename then Inr []
      else (case open_lines env filename of
              None \<Rightarrow> Inl OSError
            | Some file \<Rightarrow> Inr (rom_titles_loop file [])))"

subsection \<open>\<open>parse_dat_metadata\<close>\<close>

type_synonym meta_tuple = "string \<times> string \<times> string \<times> bool"

fun descendants :: "xml \<Rightarrow> xml list" where
  "descendants (Element t a x cs) = concat (map (\<lambda>c. c # descendants c) cs)"

text \<open>\<open>root.findall(".//tag")\<close>: the descendants of the root with that tag, in document
  order; \<open>entry.find(tag)\<close>: the first child with that tag.\<close>

definition findall_desc :: "xml \<Rightarrow> string \<Rightarrow> xml list" where
  "findall_desc xroot t = filter (\<lambda>e. etag e = t) (descendants xroot)"

definition find_child :: "xml \<Rightarrow> string \<Rightarrow> xml option" where
  "find_child entry t = List.find (\<lambda>c. etag c = t) (echildren entry)"

definition is_bios :: "xml \<Rightarrow> bool" where
  "is_bios entry = (dict_get (eattrib entry) ''isbios'' ''no'' = ''yes'')"

text \<open>\<open>entry.attrib.get("name") or entry.attrib.get("romname") or ""\<close>\<close>

definition entry_name :: "xml \<Rightarrow> string" where
  "entry_name entry =
     (case map_of (eattrib entry) ''name'' of
        Some n \<Rightarrow> if n \<noteq> [] then n else dict_get (eattrib entry) ''romname'' []
      | None \<Rightarrow> dict_get (eattrib entry) ''romname'' [])"

text \<open>\<open>node.text.strip() if node is not None and node.text else dflt\<close>\<close>

definition node_text :: "xml option \<Rightarrow> string \<Rightarrow> string" where
  "node_text node dflt =
     (case node of
        None \<Rightarrow> dflt
      | Some n \<Rightarrow> (case etext n of
                     None \<Rightarrow> dflt
                   | Some t \<Rightarrow> if t \<noteq> [] then strip t else dflt))"

definition entry_tuple :: "xml \<Rightarrow> meta_tuple" where
  "entry_tuple entry =
     (let name = entry_name entry;
          title = node_text (find_child entry ''description'') name;
          year = node_text (find_child entry ''year'') [];
          manuf = node_text (find_child entry ''manufacturer'') [];
          is_clone = dict_in ''cloneof'' (eattrib entry)
      in (title, year, manuf, is_clone))"

fun dat_loop :: "xml list \<Rightarrow> (string, meta_tuple) dict \<Rightarrow> (string, meta_tuple) dict" where
  "dat_loop [] meta = meta"
| "dat_loop (entry # entries) meta =
     (if is_bios entry then dat_loop entries meta
      else if entry_name entry \<noteq> []
           then dat_loop entries (dict_set (lower (entry_name entry)) (entry_tuple entry) meta)
           else dat_loop entries meta)"

definition dat_entries :: "xml \<Rightarrow> xml list" where
  "dat_entries xroot = findall_desc xroot ''game'' @ findall_desc xroot ''machine''"

definition parse_dat_metadata :: "os_env \<Rightarrow> string \<Rightarrow> (string, meta_tuple) dict" where
  "parse_dat_metadata env xml_path =
     (if xml_path = [] \<or> \<not> path_exists env xml_path then []
      else (case et_parse env xml_path of
              None \<Rightarrow> []
            | Some xroot \<Rightarrow> dat_loop (dat_entries xroot) []))"

section \<open>Catalog engine\<close>

type_synonym rom_entry = "string \<times> string \<times> string \<times> string \<times> bool"

type_synonym cache_key = "string \<times> string \<times> string"

type_synonym cache = "cache_key \<rightharpoonup> rom_entry list"

definition ROM_HIDE_LIST :: "string list" where
  "ROM_HIDE_LIST = [''neocdz'', ''rom_to_hide2'']"

definition NEOCD :: string where
  "NEOCD = ''SNK Neo-Geo CD''"

text \<open>The title a ROM gets from the fallback table: \<open>rom_titles.get(stem.lower(), stem)\<close>.\<close>

definition resolve_entry ::
  "(string, meta_tuple) dict \<Rightarrow> (string, string) dict \<Rightarrow> string \<Rightarrow> rom_entry" where
  "resolve_entry meta rom_titles rom =
     (let stem = path_stem rom in
      case map_of meta (lower stem) of
        Some (title, year, manuf, is_clone) \<Rightarrow> (rom, title, year, manuf, is_clone)
      | None \<Rightarrow> (rom, dict_get rom_titles (lower stem) stem, [], [], False))"

fun merge_loop ::
  "string \<Rightarrow> (string, meta_tuple) dict \<Rightarrow> (string, string) dict \<Rightarrow> string list \<Rightarrow> rom_entry list" where
  "merge_loop system_name meta rom_titles [] = []"
| "merge_loop system_name meta rom_titles (rom # roms) =
     (if lower (path_stem rom) \<in> set ROM_HIDE_LIST
      then merge_loop system_name meta rom_titles roms
      else if system_name = NEOCD
      then resolve_entry meta rom_titles rom # merge_loop system_name meta rom_titles roms
      else if meta \<noteq> [] \<and> \<not> dict_in (lower (path_stem rom)) meta
      then merge_loop system_name meta rom_titles roms
      else resolve_entry meta rom_titles rom # merge_loop system_name meta rom_titles roms)"

text \<open>The candidate files: a recursive walk for the disc system, the direct children of
  the directory otherwise.\<close>

definition scan_roms :: "os_env \<Rightarrow> string \<Rightarrow> string \<Rightarrow> error + string list" where
  "scan_roms env roms_dir system_name =
     (if system_name = NEOCD
      then Inr (concat (map (\<lambda>(dirpath, files).
                  map (\<lambda>f. os_path_relpath env (os_path_join env dirpath f) roms_dir)
                      (filter (\<lambda>f. endswith (lower f) ''.cue'') files))
                (os_walk env roms_dir)))
      else (case os_listdir env roms_dir of
              None \<Rightarrow> Inl OSError
            | Some fs \<Rightarrow>
                Inr (filter (\<lambda>f. os_isfile env (os_path_join env roms_dir f)
                                  \<and> (endswith (lower f) ''.zip'' \<or> endswith (lower f) ''.7z''
                                      \<or> endswith (lower f) ''.cue'')) fs)))"

definition title_key :: "rom_entry \<Rightarrow> string" where
  "title_key x = lower (fst (snd x))"

text \<open>
  The part of \<open>get_rom_list_cached\<close> that runs on a cache miss, without the store into the
  cache: both sources are loaded first, then the directory is scanned, merged and sorted.
  \<open>sorted\<close> of Python is a stable sort; \<open>sort_key\<close> is one too.
\<close>

definition build_rom_list ::
  "os_env \<Rightarrow> string \<Rightarrow> string \<Rightarrow> string \<Rightarrow> string \<Rightarrow> error + rom_entry list" where
  "build_rom_list env rom_titles_file roms_dir system_name xml_dat_file =
     (case load_rom_titles env rom_titles_file of
        Inl e \<Rightarrow> Inl e
      | Inr rom_titles \<Rightarrow>
          (let meta = (if xml_dat_file \<noteq> [] then parse_dat_metadata env xml_dat_file else [])
           in if roms_dir = [] \<or> \<not> path_exists env roms_dir then Inr []
              else (case scan_roms env roms_dir system_name of
                      Inl e \<Rightarrow> Inl e
                    | Inr roms \<Rightarrow>
                        Inr (sort_key title_key (merge_loop system_name meta rom_titles roms)))))"

definition get_rom_list_cached ::
  "os_env \<Rightarrow> string \<Rightarrow> string \<Rightarrow> string \<Rightarrow> string \<Rightarrow> cache \<Rightarrow> error + (rom_entry list \<times> cache)" where
  "get_rom_list_cached env rom_titles_file roms_dir system_name xml_dat_file cache_dict =
     (let cache_key = (roms_dir, system_name, xml_dat_file) in
      case cache_dict cache_key of
        Some cached \<Rightarrow> Inr (cached, cache_dict)
      | None \<Rightarrow>
          (case build_rom_list env rom_titles_file roms_dir system_name xml_dat_file of
             Inl e \<Rightarrow> Inl e
           | Inr rom_list_sorted \<Rightarrow>
               Inr (rom_list_sorted, cache_dict(cache_key \<mapsto> rom_list_sorted))))"


section \<open>Filter pipeline\<close>

fun filter_rom_list :: "rom_entry list \<Rightarrow> string \<Rightarrow> string \<Rightarrow> string \<Rightarrow> bool \<Rightarrow> rom_entry list" where
  "filter_rom_list [] search year_filter manuf_filter hide_clones = []"
| "filter_rom_list ((rom, title, year, manuf, is_clone) # rom_list)
       search year_filter manuf_filter hide_clones =
     (if hide_clones \<and> is_clone
      then filter_rom_list rom_list search year_filter manuf_filter hide_clones
      else if year_filter \<noteq> [] \<and> \<not> str_in year_filter year
      then filter_rom_list rom_list search year_filter manuf_filter hide_clones
      else if manuf_filter \<noteq> [] \<and> \<not> str_in (lower manuf_filter) (lower manuf)
      then filter_rom_list rom_list search year_filter manuf_filter hide_clones
      else if search = [] \<or> str_in search (lower title)
      then (rom, title, year, manuf, is_clone)
             # filter_rom_list rom_list search year_filter manuf_filter hide_clones
      else filter_rom_list rom_list search year_filter manuf_filter hide_clones)"



definition update_rom_list_roms ::
  "rom_entry list \<Rightarrow> string \<Rightarrow> string \<Rightarrow> string \<Rightarrow> bool \<Rightarrow> rom_entry list" where
  "update_rom_list_roms all_roms search_text year_text manuf_text hide_clones =
     filter_rom_list all_roms (lower search_text) (strip year_text) (strip manuf_text) hide_clones"

text \<open>
  The filter as the specification words it: an entry is kept unless clones are hidden and
  it is one, unless a non-empty year is not a substring of its year, unless a non-empty
  manufacturer is not a case-insensitive substring of its manufacturer, and unless a
  non-empty search text is not a case-insensitive substring of its title.
\<close>

definition ApplyFilters_keep :: "string \<Rightarrow> string \<Rightarrow> string \<Rightarrow> bool \<Rightarrow> rom_entry \<Rightarrow> bool" where
  "ApplyFilters_keep searchText yearSubstring manufacturerSubstring hideClones entry =
     (case entry of (fileRef, title, year, manufacturer, isClone) \<Rightarrow>
        \<not> (hideClones \<and> isClone)
        \<and> (yearSubstring = [] \<or> str_in yearSubstring year)
        \<and> (manufacturerSubstring = []
             \<or> str_in (lower manufacturerSubstring) (lower manufacturer))
        \<and> (searchText = [] \<or> str_in (lower searchText) (lower title)))"

section \<open>Example inputs\<close>

definition ex_dat :: xml where
  "ex_dat = Element ''datafile'' [] None
     [Element ''game'' [(''name'', ''neogeo''), (''isbios'', ''yes'')] None
        [Element ''description'' [] (Some ''Neo Geo'') []],
      Element ''game'' [(''name'', ''sf2'')] None
        [Element ''description'' [] (Some ''Street Fighter'') [],
         Element ''year'' [] (Some ''1991'') [],
         Element ''manufacturer'' [] (Some ''Capcom'') []],
      Element ''game'' [(''name'', ''sf2ce''), (''cloneof'', ''sf2'')] None
        [Element ''description'' [] (Some ''Street Fighter CE'') []]]"

definition ex_bios_dat :: xml where
  "ex_bios_dat = Element ''datafile'' [] None
     [Element ''game'' [(''name'', ''neogeo''), (''isbios'', ''yes'')] None []]"

definition ex_dup_dat :: xml where
  "ex_dup_dat = Element ''datafile'' [] None
     [Element ''game'' [(''name'', ''neogeo''), (''isbios'', ''yes'')] None
        [Element ''description'' [] (Some ''Neo Geo'') []],
      Element ''game'' [(''name'', ''NeoGeo'')] None
        [Element ''description'' [] (Some ''Demo'') []]]"

definition ex_blank_dat :: xml where
  "ex_blank_dat = Element ''datafile'' [] None
     [Element ''game'' [(''name'', ''sf2'')] None
        [Element ''description'' [] (Some '' '') []],
      Element ''game'' [(''name'', ''Pang'')] None []]"

definition ex_env :: os_env where
  "ex_env =
     \<lparr> path_exists = (\<lambda>p. p \<in> set [''roms'', ''cd'', ''t1.txt'', ''t2.txt'', ''fb.dat'',
                                     ''bios.dat'', ''dup.dat'', ''blank.dat'']),
       open_lines = (\<lambda>p. if p = ''t1.txt'' then Some [''sf2 Fighter'', ''mslug Metal Slug'']
                         else if p = ''t2.txt'' then Some [''sf2 Other'']
                         else None),
       et_parse = (\<lambda>p. if p = ''fb.dat'' then Some ex_dat
                       else if p = ''bios.dat'' then Some ex_bios_dat
                       else if p = ''dup.dat'' then Some ex_dup_dat
                       else if p = ''blank.dat'' then Some ex_blank_dat
                       else None),
       os_listdir = (\<lambda>p. if p = ''roms'' then Some [''sf2.zip'', ''x.txt'', ''SF2.ZIP'', ''pang.7z'']
                         else None),
       os_isfile = (\<lambda>p. True),
       os_walk = (\<lambda>p. if p = ''cd'' then [(''cd'', [''neocdz.cue'']),
                                           (''cd/g'', [''mslug.cue'', ''t.bin''])]
                      else []),
       os_path_join = (\<lambda>a b. a @ ''/'' @ b),
       os_path_relpath = (\<lambda>p start. drop (Suc (length start)) p) \<rparr>"

section \<open>Repeat-rate input controller\<close>

text \<open>
  Times are milliseconds (\<open>time.time() * 1000\<close>) and are real numbers here, as are the
  two delays of the configuration, which the program keeps in seconds and multiplies by
  1000 where it compares.

  A view is the list widget together with the repeat state of the window that owns it.
  The dictionaries of the repeat state are read with \<open>.get(key, default)\<close> (or indexed at
  keys they hold from the start), so each is a total function that gives the default at a
  key never written: \<open>False\<close> for the held flags, \<open>0\<close> for the times.

  \<open>setCurrentRow\<close> belongs to the widget library: a row of the list becomes the current
  row, any other row leaves the list without a current row (\<open>currentRow()\<close> is \<open>-1\<close>).
  \<open>row_requests\<close> keeps the rows the program handed to \<open>setCurrentRow\<close>, in order.
\<close>

record view =
  count :: int
  current_row :: int
  row_requests :: "int list"
  last_hat_held :: "string \<Rightarrow> bool"
  last_hat_held_time :: "string \<Rightarrow> real"
  last_key_held :: "string \<Rightarrow> bool"
  last_key_held_time :: "string \<Rightarrow> real"
  last_button_states :: "string \<Rightarrow> bool"
  last_button_times :: "string \<Rightarrow> real"

record joystick_config =
  hat_scroll_cooldown :: real
  hat_fastest_steps :: int
  hat_fastest_delay :: real
  button_index :: "string \<Rightarrow> int"

text \<open>One sample of the device: \<open>get_numhats()\<close>, \<open>get_hat(0)\<close>, \<open>get_numbuttons()\<close>
  and \<open>get_button(i)\<close>.\<close>

record joystick =
  get_numhats :: int
  get_hat :: "int \<times> int"
  get_numbuttons :: int
  get_button :: "int \<Rightarrow> bool"

definition setCurrentRow :: "int \<Rightarrow> view \<Rightarrow> view" where
  "setCurrentRow row w =
     w\<lparr> current_row := (if 0 \<le> row \<and> row < count w then row else - 1),
        row_requests := row_requests w @ [row] \<rparr>"

subsection \<open>\<open>MainWindow.poll_joystick\<close>\<close>

text \<open>
  The nested \<open>scroll_list\<close> of the main window. \<open>idx\<close> and \<open>size\<close> (here \<open>list_size\<close>) are the current row
  and the item count read at the start of the tick. Which arm of its \<open>if\<close>/\<open>elif\<close> chain
  runs is computed first, in the order of the source, then the arm is run.
\<close>

datatype scroll_arm = Edge | Fast | Fallback | Idle | Released

definition scroll_list_arm :: "joystick_config \<Rightarrow> real \<Rightarrow> bool \<Rightarrow> bool \<Rightarrow> real \<Rightarrow> scroll_arm" where
  "scroll_list_arm jc now direction held held_time =
     (if direction
      then (if \<not> held then Edge
            else if now - held_time > hat_fastest_delay jc * 1000 then Fast
            else if now - held_time > 200 then Fallback
            else Idle)
      else Released)"

definition set_held :: "bool \<Rightarrow> string \<Rightarrow> bool \<Rightarrow> view \<Rightarrow> view" where
  "set_held is_keyboard held_key v w =
     (if is_keyboard then w\<lparr> last_key_held := (last_key_held w)(held_key := v) \<rparr>
      else w\<lparr> last_hat_held := (last_hat_held w)(held_key := v) \<rparr>)"

definition set_held_time :: "bool \<Rightarrow> string \<Rightarrow> real \<Rightarrow> view \<Rightarrow> view" where
  "set_held_time is_keyboard held_key t w =
     (if is_keyboard then w\<lparr> last_key_held_time := (last_key_held_time w)(held_key := t) \<rparr>
      else w\<lparr> last_hat_held_time := (last_hat_held_time w)(held_key := t) \<rparr>)"

definition scroll_list ::
  "joystick_config \<Rightarrow> real \<Rightarrow> int \<Rightarrow> int \<Rightarrow> bool \<Rightarrow> int \<Rightarrow> string \<Rightarrow> bool \<Rightarrow> view \<Rightarrow> view" where
  "scroll_list jc now idx list_size direction steps held_key is_keyboard w =
     (let state_dict = (if is_keyboard then last_key_held w else last_hat_held w);
          time_dict = (if is_keyboard then last_key_held_time w else last_hat_held_time w)
      in case scroll_list_arm jc now direction (state_dict held_key) (time_dict held_key) of
           Edge \<Rightarrow>
             set_held_time is_keyboard held_key now
               (set_held is_keyboard held_key True
                  (setCurrentRow (if held_key = ''left'' then max 0 (idx - steps)
                                  else min (list_size - 1) (idx + steps)) w))
         | Fast \<Rightarrow>
             set_held_time is_keyboard held_key (now - (hat_fastest_delay jc * 1000 - 50))
               (setCurrentRow (if held_key = ''left'' then max 0 (current_row w - steps)
                               else min (list_size - 1) (current_row w + steps)) w)
         | Fallback \<Rightarrow>
             set_held_time is_keyboard held_key now
               (setCurrentRow (if held_key = ''left'' then max 0 (current_row w - steps)
                               else min (list_size - 1) (current_row w + steps)) w)
         | Idle \<Rightarrow> w
         | Released \<Rightarrow> set_held is_keyboard held_key False w)"

text \<open>The two single-step blocks for the hat pointing up and down.\<close>

definition hat_up_step :: "joystick_config \<Rightarrow> real \<Rightarrow> int \<Rightarrow> bool \<Rightarrow> view \<Rightarrow> view" where
  "hat_up_step jc now idx hat_up w =
     (if hat_up
      then (if \<not> last_hat_held w ''up''
            then (setCurrentRow (max 0 (idx - 1)) w)
                   \<lparr> last_hat_held_time := (last_hat_held_time w)(''up'' := now),
                     last_hat_held := (last_hat_held w)(''up'' := True) \<rparr>
            else if now - last_hat_held_time w ''up'' \<ge> hat_scroll_cooldown jc * 1000
            then (setCurrentRow (max 0 (current_row w - 1)) w)
                   \<lparr> last_hat_held_time := (last_hat_held_time w)(''up'' := now) \<rparr>
            else w)
      else w\<lparr> last_hat_held := (last_hat_held w)(''up'' := False) \<rparr>)"

definition hat_down_step :: "joystick_config \<Rightarrow> real \<Rightarrow> int \<Rightarrow> int \<Rightarrow> bool \<Rightarrow> view \<Rightarrow> view" where
  "hat_down_step jc now idx list_size hat_down w =
     (if hat_down
      then (if \<not> last_hat_held w ''down''
            then (setCurrentRow (min (list_size - 1) (idx + 1)) w)
                   \<lparr> last_hat_held_time := (last_hat_held_time w)(''down'' := now),
                     last_hat_held := (last_hat_held w)(''down'' := True) \<rparr>
            else if now - last_hat_held_time w ''down'' \<ge> hat_scroll_cooldown jc * 1000
            then (setCurrentRow (min (list_size - 1) (current_row w + 1)) w)
                   \<lparr> last_hat_held_time := (last_hat_held_time w)(''down'' := now) \<rparr>
            else w)
      else w\<lparr> last_hat_held := (last_hat_held w)(''down'' := False) \<rparr>)"

text \<open>The axis part of a tick: the hat, when a device with a hat is connected, then the
  mirrored keyboard keys, whose held flags the key events of the window maintain.\<close>

definition poll_axes :: "joystick_config \<Rightarrow> joystick option \<Rightarrow> real \<Rightarrow> view \<Rightarrow> view" where
  "poll_axes jc joy now w =
     (let fastest_steps = hat_fastest_steps jc;
          idx = current_row w;
          list_size = count w;
          w1 = (case joy of
                  None \<Rightarrow> w
                | Some j \<Rightarrow>
                    if get_numhats j > 0
                    then (let hat = get_hat j;
                              hat_up = (snd hat = 1);
                              hat_down = (snd hat = - 1);
                              hat_left = (fst hat = - 1);
                              hat_right = (fst hat = 1)
                          in scroll_list jc now idx list_size hat_right fastest_steps ''right'' False
                               (scroll_list jc now idx list_size hat_left fastest_steps ''left'' False
                                  (hat_down_step jc now idx list_size hat_down
                                     (hat_up_step jc now idx hat_up w))))
                    else w);
          w2 = scroll_list jc now idx list_size (last_key_held w1 ''left'') fastest_steps
                 ''left'' True w1
      in scroll_list jc now idx list_size (last_key_held w2 ''right'') fastest_steps ''right'' True w2)"

text \<open>The key events of \<open>MainWindow.eventFilter\<close> for the left and right arrows.\<close>

definition key_press :: "string \<Rightarrow> real \<Rightarrow> view \<Rightarrow> view" where
  "key_press key now w =
     w\<lparr> last_key_held := (last_key_held w)(key := True),
        last_key_held_time := (last_key_held_time w)(key := now) \<rparr>"

definition key_release :: "string \<Rightarrow> view \<Rightarrow> view" where
  "key_release key w = w\<lparr> last_key_held := (last_key_held w)(key := False) \<rparr>"






subsection \<open>\<open>FavoritesDialog.poll_joystick\<close>\<close>






subsection \<open>Example configuration and views\<close>

definition default_jc :: joystick_config where
  "default_jc =
     \<lparr> hat_scroll_cooldown = 8 / 100, hat_fastest_steps = 10, hat_fastest_delay = 2 / 100,
       button_index = (\<lambda>k. if k = ''button_up'' then 2 else if k = ''button_down'' then 3
                            else if k = ''button_select'' then 0
                            else if k = ''button_favorites'' then 7
                            else if k = ''button_prev_tab'' then 4
                            else if k = ''button_next_tab'' then 5 else - 1) \<rparr>"

text \<open>A view as the constructors of the two windows leave it, over a list of \<open>n\<close> items
  with current row \<open>r\<close>.\<close>

definition init_view :: "int \<Rightarrow> int \<Rightarrow> view" where
  "init_view n r =
     \<lparr> count = n, current_row = r, row_requests = [],
       last_hat_held = (\<lambda>k. False), last_hat_held_time = (\<lambda>k. 0),
       last_key_held = (\<lambda>k. False), last_key_held_time = (\<lambda>k. 0),
       last_button_states = (\<lambda>k. False), last_button_times = (\<lambda>k. 0) \<rparr>"





definition moves_within :: "view \<Rightarrow> view \<Rightarrow> bool" where
  "moves_within w w' =
     (count w' = count w \<and> - 1 \<le> current_row w' \<and> current_row w' < count w'
      \<and> take (length (row_requests w)) (row_requests w') = row_requests w
      \<and> list_all (\<lambda>r. 0 \<le> r \<and> r < count w) (drop (length (row_requests w)) (row_requests w')))"

section \<open>The string functions meet their meaning\<close>

text \<open>\<open>startswith\<close> is the prefix test and \<open>str_in\<close> the test for a contiguous
  substring.\<close>

lemma startswith_iff: "startswith s p \<longleftrightarrow> (\<exists>r. s = p @ r)"
  by (induction s p rule: startswith.induct) auto

lemma str_in_iff: "str_in a b \<longleftrightarrow> (\<exists>p s. b = p @ a @ s)"
proof (induction b)
  case Nil
  show ?case by auto
next
  case (Cons c cs)
  have "(\<exists>p s. c # cs = p @ a @ s)
          \<longleftrightarrow> (\<exists>s. c # cs = a @ s) \<or> (\<exists>p s. cs = p @ a @ s)"
  proof
    assume "\<exists>p s. c # cs = p @ a @ s"
    then obtain p s where e: "c # cs = p @ a @ s" by blast
    show "(\<exists>s. c # cs = a @ s) \<or> (\<exists>p s. cs = p @ a @ s)"
    proof (cases p)
      case Nil
      with e show ?thesis by auto
    next
      case (Cons x p')
      with e have "cs = p' @ a @ s" by simp
      then show ?thesis by blast
    qed
  next
    assume "(\<exists>s. c # cs = a @ s) \<or> (\<exists>p s. cs = p @ a @ s)"
    then show "\<exists>p s. c # cs = p @ a @ s"
    proof
      assume "\<exists>s. c # cs = a @ s"
      then obtain s where "c # cs = [] @ a @ s" by auto
      then show ?thesis by blast
    next
      assume "\<exists>p s. cs = p @ a @ s"
      then obtain p s where "c # cs = (c # p) @ a @ s" by auto
      then show ?thesis by blast
    qed
  qed
  with Cons show ?case by (simp add: startswith_iff)
qed

section \<open>Properties of the catalog engine\<close>

lemma dat_loop_eq:
  "dat_loop es m =
     rev (map (\<lambda>e. (lower (entry_name e), entry_tuple e))
              (filter (\<lambda>e. \<not> is_bios e \<and> entry_name e \<noteq> []) es)) @ m"
  by (induction es arbitrary: m) (simp_all add: dict_set_def)

lemma map_of_dat_loop_Some:
  assumes "map_of (dat_loop es []) k = Some v"
  shows "\<exists>e\<in>set es. \<not> is_bios e \<and> entry_name e \<noteq> [] \<and> lower (entry_name e) = k
            \<and> entry_tuple e = v"
proof -
  from assms have "(k, v) \<in> set (dat_loop es [])" by (rule map_of_SomeD)
  then show ?thesis by (auto simp: dat_loop_eq)
qed

lemma fst_resolve_entry: "fst (resolve_entry meta t rom) = rom"
  by (simp add: resolve_entry_def Let_def split: option.split prod.split)

lemma merge_loop_sound:
  "x \<in> set (merge_loop sys meta t roms) \<Longrightarrow>
     \<exists>rom\<in>set roms. x = resolve_entry meta t rom
        \<and> lower (path_stem rom) \<notin> set ROM_HIDE_LIST
        \<and> (sys \<noteq> NEOCD \<longrightarrow> meta \<noteq> [] \<longrightarrow> dict_in (lower (path_stem rom)) meta)"
  by (induction roms) (auto split: if_splits)


lemma build_rom_list_cases:
  assumes "build_rom_list env rtf d sys xml = Inr rl"
  shows "(\<exists>t. load_rom_titles env rtf = Inr t) \<and>
         (if d = [] \<or> \<not> path_exists env d then rl = []
          else (\<exists>t roms. load_rom_titles env rtf = Inr t \<and> scan_roms env d sys = Inr roms
                  \<and> rl = sort_key title_key
                        (merge_loop sys (if xml \<noteq> [] then parse_dat_metadata env xml else []) t roms)))"
  using assms
  by (auto simp: build_rom_list_def Let_def split: sum.splits if_splits)



lemma ex_build_t1:
  "build_rom_list ex_env ''t1.txt'' ''roms'' ''Arcade'' [] =
     Inr [(''sf2.zip'', ''Fighter'', [], [], False), (''SF2.ZIP'', ''Fighter'', [], [], False),
          (''pang.7z'', ''pang'', [], [], False)]"
  by code_simp


text \<open>
  C8. After a call that returned a list, the cache holds that list under the call's key,
  and a second call with the same key returns the same list and the same cache whatever
  the file system has become and whatever title file is passed: nothing is scanned or
  parsed again.
\<close>

theorem get_rom_list_cached_idempotent:
  assumes "get_rom_list_cached env rtf d sys xml cache_dict = Inr (rom_list, cache')"
  shows "cache' (d, sys, xml) = Some rom_list
       \<and> get_rom_list_cached env2 rtf2 d sys xml cache' = Inr (rom_list, cache')"
  using assms
  by (auto simp: get_rom_list_cached_def Let_def split: option.splits sum.splits)

theorem get_rom_list_cached_idempotent_witness:
  "get_rom_list_cached ex_env ''t2.txt'' ''roms'' ''Arcade'' []
     [(''roms'', ''Arcade'', []) \<mapsto>
            [(''sf2.zip'', ''Fighter'', [], [], False), (''SF2.ZIP'', ''Fighter'', [], [], False),
             (''pang.7z'', ''pang'', [], [], False)]]
   = Inr ([(''sf2.zip'', ''Fighter'', [], [], False), (''SF2.ZIP'', ''Fighter'', [], [], False),
           (''pang.7z'', ''pang'', [], [], False)],
          [(''roms'', ''Arcade'', []) \<mapsto>
            [(''sf2.zip'', ''Fighter'', [], [], False), (''SF2.ZIP'', ''Fighter'', [], [], False),
             (''pang.7z'', ''pang'', [], [], False)]])"
proof -
  have r: "get_rom_list_cached ex_env ''t1.txt'' ''roms'' ''Arcade'' [] Map.empty =
     Inr ([(''sf2.zip'', ''Fighter'', [], [], False), (''SF2.ZIP'', ''Fighter'', [], [], False),
           (''pang.7z'', ''pang'', [], [], False)],
          [(''roms'', ''Arcade'', []) \<mapsto>
            [(''sf2.zip'', ''Fighter'', [], [], False), (''SF2.ZIP'', ''Fighter'', [], [], False),
             (''pang.7z'', ''pang'', [], [], False)]])"
    by (simp add: get_rom_list_cached_def ex_build_t1)
  from get_rom_list_cached_idempotent[OF r, of ex_env "''t2.txt''"] show ?thesis by simp
qed


lemma ex_build_fb:
  "build_rom_list ex_env ''t1.txt'' ''roms'' ''Arcade'' ''fb.dat'' =
     Inr [(''sf2.zip'', ''Street Fighter'', ''1991'', ''Capcom'', False),
          (''SF2.ZIP'', ''Street Fighter'', ''1991'', ''Capcom'', False)]"
  by code_simp















lemma parse_dat_metadata_Some:
  assumes "map_of (parse_dat_metadata env p) k = Some v"
  shows "\<exists>xroot e. et_parse env p = Some xroot \<and> e \<in> set (dat_entries xroot) \<and> \<not> is_bios e
            \<and> entry_name e \<noteq> [] \<and> lower (entry_name e) = k \<and> entry_tuple e = v"
proof (cases "p = [] \<or> \<not> path_exists env p")
  case True
  with assms show ?thesis by (simp add: parse_dat_metadata_def)
next
  case False
  show ?thesis
  proof (cases "et_parse env p")
    case None
    with False assms show ?thesis by (simp add: parse_dat_metadata_def)
  next
    case (Some xroot)
    with False assms have "map_of (dat_loop (dat_entries xroot) []) k = Some v"
      by (simp add: parse_dat_metadata_def)
    from map_of_dat_loop_Some[OF this] Some show ?thesis by blast
  qed
qed

text \<open>
  C5, as stated, fails: the index is keyed by the lower-cased identifier, so the identifier
  of a BIOS record is a key of the index as soon as a record that is not a BIOS carries the
  same identifier up to letter case.
\<close>

theorem bios_exclusion_counterexample:
  "Element ''game'' [(''name'', ''neogeo''), (''isbios'', ''yes'')] None
       [Element ''description'' [] (Some ''Neo Geo'') []] \<in> set (dat_entries ex_dup_dat)
   \<and> is_bios (Element ''game'' [(''name'', ''neogeo''), (''isbios'', ''yes'')] None
       [Element ''description'' [] (Some ''Neo Geo'') []])
   \<and> entry_name (Element ''game'' [(''name'', ''neogeo''), (''isbios'', ''yes'')] None
       [Element ''description'' [] (Some ''Neo Geo'') []]) = ''neogeo''
   \<and> parse_dat_metadata ex_env ''dup.dat'' = [(''neogeo'', ''Demo'', [], [], False)]
   \<and> dict_in ''neogeo'' (parse_dat_metadata ex_env ''dup.dat'')"
  by code_simp

text \<open>
  C5, amended. Every binding of the parsed index is the lower-cased name and the tuple of
  a record that is not flagged as BIOS; so the identifier of a BIOS record is a key only
  when such a record shares it up to letter case. Consequently every entry of a built
  catalog either carries the tuple of a record that is not a BIOS, or has the fallback
  title with empty year and manufacturer and the clone flag false.
\<close>

theorem bios_exclusion:
  "(\<forall>k v. map_of (parse_dat_metadata env xml) k = Some v \<longrightarrow>
      (\<exists>xroot e. et_parse env xml = Some xroot \<and> e \<in> set (dat_entries xroot) \<and> \<not> is_bios e
           \<and> lower (entry_name e) = k \<and> entry_tuple e = v))
   \<and> (\<forall>rom_list rom title year manuf is_clone.
        build_rom_list env rtf d sys xml = Inr rom_list \<longrightarrow>
        (rom, title, year, manuf, is_clone) \<in> set rom_list \<longrightarrow>
          (\<exists>xroot e. et_parse env xml = Some xroot \<and> e \<in> set (dat_entries xroot) \<and> \<not> is_bios e
               \<and> lower (entry_name e) = lower (path_stem rom)
               \<and> entry_tuple e = (title, year, manuf, is_clone))
          \<or> (year = [] \<and> manuf = [] \<and> \<not> is_clone
              \<and> (\<exists>t. load_rom_titles env rtf = Inr t
                     \<and> title = dict_get t (lower (path_stem rom)) (path_stem rom))))"
proof (intro conjI allI impI)
  fix k v assume "map_of (parse_dat_metadata env xml) k = Some v"
  from parse_dat_metadata_Some[OF this]
  show "\<exists>xroot e. et_parse env xml = Some xroot \<and> e \<in> set (dat_entries xroot) \<and> \<not> is_bios e
           \<and> lower (entry_name e) = k \<and> entry_tuple e = v" by blast
next
  fix rom_list rom title year manuf is_clone
  assume b: "build_rom_list env rtf d sys xml = Inr rom_list"
     and m: "(rom, title, year, manuf, is_clone) \<in> set rom_list"
  let ?meta = "if xml \<noteq> [] then parse_dat_metadata env xml else []"
  from build_rom_list_cases[OF b] m obtain t roms where
    l: "load_rom_titles env rtf = Inr t" and
    rl: "rom_list = sort_key title_key (merge_loop sys ?meta t roms)"
    by (auto split: if_splits)
  from m rl have "(rom, title, year, manuf, is_clone) \<in> set (merge_loop sys ?meta t roms)"
    by simp
  from merge_loop_sound[OF this] obtain rom' where
    e: "(rom, title, year, manuf, is_clone) = resolve_entry ?meta t rom'" by blast
  then have r: "rom' = rom" by (metis fst_conv fst_resolve_entry)
  show "(\<exists>xroot e. et_parse env xml = Some xroot \<and> e \<in> set (dat_entries xroot) \<and> \<not> is_bios e
               \<and> lower (entry_name e) = lower (path_stem rom)
               \<and> entry_tuple e = (title, year, manuf, is_clone))
          \<or> (year = [] \<and> manuf = [] \<and> \<not> is_clone
              \<and> (\<exists>t. load_rom_titles env rtf = Inr t
                     \<and> title = dict_get t (lower (path_stem rom)) (path_stem rom)))"
  proof (cases "map_of ?meta (lower (path_stem rom))")
    case None
    with e r l show ?thesis by (simp add: resolve_entry_def Let_def)
  next
    case (Some v)
    with e r have v: "v = (title, year, manuf, is_clone)"
      by (cases v) (simp add: resolve_entry_def Let_def)
    from Some have "map_of (parse_dat_metadata env xml) (lower (path_stem rom)) = Some v"
      by (simp split: if_splits)
    from parse_dat_metadata_Some[OF this] v show ?thesis by blast
  qed
qed

theorem bios_exclusion_witness:
  "(\<exists>xroot e. et_parse ex_env ''fb.dat'' = Some xroot \<and> e \<in> set (dat_entries xroot)
      \<and> \<not> is_bios e \<and> lower (entry_name e) = ''sf2''
      \<and> entry_tuple e = (''Street Fighter'', ''1991'', ''Capcom'', False))
   \<and> ((\<exists>xroot e. et_parse ex_env ''fb.dat'' = Some xroot \<and> e \<in> set (dat_entries xroot)
          \<and> \<not> is_bios e \<and> lower (entry_name e) = lower (path_stem ''sf2.zip'')
          \<and> entry_tuple e = (''Street Fighter'', ''1991'', ''Capcom'', False))
        \<or> (''1991'' = [] \<and> ''Capcom'' = [] \<and> \<not> False
            \<and> (\<exists>t. load_rom_titles ex_env ''t1.txt'' = Inr t
                   \<and> ''Street Fighter'' = dict_get t (lower (path_stem ''sf2.zip''))
                                             (path_stem ''sf2.zip''))))"
proof -
  have m: "map_of (parse_dat_metadata ex_env ''fb.dat'') ''sf2''
          = Some (''Street Fighter'', ''1991'', ''Capcom'', False)"
    by code_simp
  have i: "(''sf2.zip'', ''Street Fighter'', ''1991'', ''Capcom'', False)
             \<in> set [(''sf2.zip'', ''Street Fighter'', ''1991'', ''Capcom'', False),
                     (''SF2.ZIP'', ''Street Fighter'', ''1991'', ''Capcom'', False)]"
    by simp
  note b = bios_exclusion[of ex_env "''fb.dat''" "''t1.txt''" "''roms''" "''Arcade''"]
  from b m have 1: "\<exists>xroot e. et_parse ex_env ''fb.dat'' = Some xroot
      \<and> e \<in> set (dat_entries xroot)
      \<and> \<not> is_bios e \<and> lower (entry_name e) = ''sf2''
      \<and> entry_tuple e = (''Street Fighter'', ''1991'', ''Capcom'', False)"
    by blast
  from b ex_build_fb i have 2: "(\<exists>xroot e. et_parse ex_env ''fb.dat'' = Some xroot
          \<and> e \<in> set (dat_entries xroot)
          \<and> \<not> is_bios e \<and> lower (entry_name e) = lower (path_stem ''sf2.zip'')
          \<and> entry_tuple e = (''Street Fighter'', ''1991'', ''Capcom'', False))
        \<or> (''1991'' = [] \<and> ''Capcom'' = [] \<and> \<not> False
            \<and> (\<exists>t. load_rom_titles ex_env ''t1.txt'' = Inr t
                   \<and> ''Street Fighter'' = dict_get t (lower (path_stem ''sf2.zip''))
                                             (path_stem ''sf2.zip'')))"
    by blast
  from 1 2 show ?thesis ..
qed

lemma lower_char_idem: "lower_char (lower_char c) = lower_char c"
  by (simp add: lower_char_def)

lemma lower_idem: "lower (lower s) = lower s"
  by (simp add: lower_def lower_char_idem)

lemma lower_Nil_iff: "lower s = [] \<longleftrightarrow> s = []"
  by (simp add: lower_def)

lemma filter_rom_list_eq:
  "filter_rom_list rom_list search year_filter manuf_filter hide_clones =
     filter (\<lambda>(rom, title, year, manuf, is_clone).
               \<not> (hide_clones \<and> is_clone)
               \<and> (year_filter = [] \<or> str_in year_filter year)
               \<and> (manuf_filter = [] \<or> str_in (lower manuf_filter) (lower manuf))
               \<and> (search = [] \<or> str_in search (lower title))) rom_list"
  by (induction rom_list search year_filter manuf_filter hide_clones rule: filter_rom_list.induct)
     auto

text \<open>
  C6, as stated, fails: \<open>filter_rom_list\<close> lower-cases the title but not its \<open>search\<close>
  argument, so an upper-case search text drops an entry whose title contains it as a
  case-insensitive substring.
\<close>

theorem search_case_counterexample:
  "filter_rom_list [(''sf2.zip'', ''Street Fighter'', [], [], False)] ''STREET'' [] [] False = []
   \<and> str_in (lower ''STREET'') (lower ''Street Fighter'')"
  by code_simp

text \<open>
  C6, amended. For a search text that is already lower-case, \<open>filter_rom_list\<close> is the
  filter of the specification: it keeps exactly the entries the four criteria permit, in
  their order. The caller \<open>update_rom_list\<close> lower-cases the text of the search field
  before the call, so that the filtering of the browser is case-insensitive in the search
  text as well.
\<close>

theorem search_lowercased_by_caller:
  "(lower search = search \<longrightarrow>
      filter_rom_list rom_list search year_filter manuf_filter hide_clones
        = filter (ApplyFilters_keep search year_filter manuf_filter hide_clones) rom_list)
   \<and> update_rom_list_roms rom_list search_text year_text manuf_text hide_clones
        = filter (ApplyFilters_keep search_text (strip year_text) (strip manuf_text) hide_clones)
            rom_list"
proof -
  have "filter_rom_list rom_list (lower s) y m h = filter (ApplyFilters_keep s y m h) rom_list"
    for s y m h
    unfolding filter_rom_list_eq
    by (rule filter_cong) (auto simp: ApplyFilters_keep_def lower_Nil_iff)
  from this[of search] this[of search_text] show ?thesis
    by (auto simp: update_rom_list_roms_def)
qed

theorem search_lowercased_by_caller_witness:
  "filter_rom_list [(''sf2.zip'', ''Street Fighter'', [], [], False),
                    (''pang.zip'', ''Pang'', [], [], False)] ''street'' [] [] False
     = [(''sf2.zip'', ''Street Fighter'', [], [], False)]
   \<and> update_rom_list_roms [(''sf2.zip'', ''Street Fighter'', [], [], False),
                           (''pang.zip'', ''Pang'', [], [], False)] ''STREET'' [] [] False
     = [(''sf2.zip'', ''Street Fighter'', [], [], False)]"
proof -
  have f: "filter (ApplyFilters_keep ''STREET'' (strip []) (strip []) False)
          [(''sf2.zip'', ''Street Fighter'', [], [], False), (''pang.zip'', ''Pang'', [], [], False)]
        = [(''sf2.zip'', ''Street Fighter'', [], [], False)]"
    by code_simp
  have g: "filter (ApplyFilters_keep ''street'' [] [] False)
          [(''sf2.zip'', ''Street Fighter'', [], [], False), (''pang.zip'', ''Pang'', [], [], False)]
        = [(''sf2.zip'', ''Street Fighter'', [], [], False)]"
    by code_simp
  have l: "lower ''street'' = ''street''" by code_simp
  from search_lowercased_by_caller[of "''street''"
         "[(''sf2.zip'', ''Street Fighter'', [], [], False), (''pang.zip'', ''Pang'', [], [], False)]"
         "[]" "[]" False "''STREET''" "[]" "[]"] l f g
  show ?thesis by simp
qed






section \<open>Properties of the input controller\<close>













text \<open>
  C9. When the fastest delay is at most 200 ms, the arm of \<open>scroll_list\<close> guarded by
  \<open>now - held_time > 200\<close> is never taken, whatever the time, the input and the recorded
  state: its guard implies the guard of the arm before it.
\<close>

theorem fallback_arm_dead:
  assumes "hat_fastest_delay jc * 1000 \<le> 200"
  shows "scroll_list_arm jc now direction held held_time \<noteq> Fallback"
  using assms by (simp add: scroll_list_arm_def)

theorem fallback_arm_dead_witness:
  "hat_fastest_delay default_jc * 1000 \<le> 200
   \<and> scroll_list_arm default_jc 1000 True True 0 \<noteq> Fallback"
proof -
  have h: "hat_fastest_delay default_jc * 1000 \<le> 200" by (simp add: default_jc_def)
  from fallback_arm_dead[OF h] h show ?thesis by simp
qed

lemma fallback_arm_reachable:
  "scroll_list_arm (default_jc\<lparr>hat_fastest_delay := 3 / 10\<rparr>) 250 True True 0 = Fallback"
  by (simp add: scroll_list_arm_def default_jc_def)

text \<open>
  The arrow keys mirror the hat, but their held flag is set by the key event itself, so
  the tick that follows a key press finds the flag set and sees no edge: it moves nothing,
  and the first move comes once more than the fastest delay has passed since the press.
\<close>

lemma keyboard_no_edge_move:
  "row_requests (poll_axes default_jc None 0 (key_press ''right'' 0 (init_view 50 0))) = []
   \<and> row_requests (poll_axes default_jc None 21 (key_press ''right'' 0 (init_view 50 0))) = [10]"
  by (simp add: poll_axes_def scroll_list_def scroll_list_arm_def key_press_def init_view_def
                default_jc_def set_held_def set_held_time_def setCurrentRow_def Let_def)









lemma moves_within_upd [simp]:
  "moves_within w (v\<lparr>last_hat_held := a\<rparr>) = moves_within w v"
  "moves_within w (v\<lparr>last_hat_held_time := b\<rparr>) = moves_within w v"
  "moves_within w (v\<lparr>last_key_held := a\<rparr>) = moves_within w v"
  "moves_within w (v\<lparr>last_key_held_time := b\<rparr>) = moves_within w v"
  "moves_within w (v\<lparr>last_button_states := a\<rparr>) = moves_within w v"
  "moves_within w (v\<lparr>last_button_times := b\<rparr>) = moves_within w v"
  by (simp_all add: moves_within_def)

lemma moves_within_set_held [simp]:
  "moves_within w (set_held k key b v) = moves_within w v"
  "moves_within w (set_held_time k key t v) = moves_within w v"
  by (simp_all add: set_held_def set_held_time_def)
















end
